theory Spec2Isabelle
  imports Complex_Main
begin

section \<open>Dust Container Designer: configuration, validation, history, mass properties\<close>

text \<open>
  A shallow embedding of \<^verbatim>\<open>src/core-app.js\<close>. JavaScript numbers are modelled as
  real numbers (no rounding, no NaN, no infinities), \<^verbatim>\<open>Math.floor\<close> as the integer part
  below, \<^verbatim>\<open>Math.max\<close> and \<^verbatim>\<open>Math.min\<close> as \<open>max\<close> and \<open>min\<close>. A configuration object is
  a record with one field per key of \<^verbatim>\<open>DEFAULTS\<close>; \<^verbatim>\<open>deepClone\<close> of such a record is the
  record itself, since records are values.
\<close>

subsection \<open>Configuration\<close>

record config =
  L_rect :: real
  x_hopper :: real
  H :: real
  W :: real
  t_wall :: real
  include_frame :: bool
  H_frame :: real
  W_pocket :: real
  H_pocket :: real
  S_pocket :: real
  unlock_pockets :: bool
  include_lid :: bool
  t_lid :: real
  r_hole :: real
  lid_edge_length :: real
  lid_offset_from_hopper_edge :: real
  advanced_lid_material :: bool
  rho_lid :: real
  shell_material :: string
  rho_shell :: real
  rho_dust :: real
  humidity :: real
  fill_percentage :: real
  snap_to_grid :: bool
  move_step_mm :: real
  show_reference_cube :: bool
  show_cog_empty :: bool
  show_cog_filled :: bool
  export_lid_with_container :: bool

definition DEFAULTS :: config where
  "DEFAULTS = \<lparr>
     L_rect = 1400, x_hopper = 700, H = 900, W = 1300, t_wall = 5,
     include_frame = True, H_frame = 100, W_pocket = 230, H_pocket = 91, S_pocket = 142,
     unlock_pockets = False,
     include_lid = False, t_lid = 3, r_hole = 200, lid_edge_length = 100,
     lid_offset_from_hopper_edge = 500, advanced_lid_material = False, rho_lid = 7850,
     shell_material = ''steel'', rho_shell = 7850, rho_dust = 1850, humidity = 0,
     fill_percentage = 80,
     snap_to_grid = True, move_step_mm = 50, show_reference_cube = False,
     show_cog_empty = True, show_cog_filled = True,
     export_lid_with_container = False \<rparr>"

definition deepClone :: "config \<Rightarrow> config" where
  "deepClone obj = obj"

definition mmToM :: "real \<Rightarrow> real" where
  "mmToM mm = mm / 1000"

subsection \<open>Validation\<close>

text \<open>
  \<^verbatim>\<open>validateCandidate\<close> returns \<^verbatim>\<open>{ ok: true }\<close> or
  \<^verbatim>\<open>{ ok: false, message, fix, fields }\<close>. The closure \<^verbatim>\<open>fix\<close> takes no argument and
  mutates the validated candidate in place; nothing touches the candidate between the
  validation and the call of \<^verbatim>\<open>fix\<close>, so the model stores in \<open>fixed\<close> the candidate as the
  closure leaves it (\<open>fix\<close> itself is a reserved word here).
\<close>

datatype validation =
  ok: Valid
  | Invalid (message: string) (fixed: config) (fields: "string list")

definition en_dash :: string where
  "en_dash = [CHR 0xE2, CHR 0x80, CHR 0x93]"

definition validateCandidate :: "config \<Rightarrow> validation" where
  "validateCandidate c =
    (if L_rect c \<le> 0 \<or> H c \<le> 0 \<or> W c \<le> 0 \<or> t_wall c \<le> 0 then
       Invalid ''All main dimensions (L_rect, H, W, t_wall) must be > 0.''
         (c\<lparr>L_rect := max (L_rect c) 100, H := max (H c) 100,
            W := max (W c) 100, t_wall := max (t_wall c) 2\<rparr>)
         [''input-l-rect'', ''input-h'', ''input-w'', ''input-t-wall'']
     else
       let maxWall = min (W c) (L_rect c) / 4 in
       if 2 * t_wall c \<ge> W c \<or> 2 * t_wall c \<ge> L_rect c then
         Invalid (''Wall thickness too large relative to width/length '' @ en_dash @
                   '' inner cavity would collapse.'')
           (c\<lparr>t_wall := max 2 (of_int \<lfloor>maxWall\<rfloor>)\<rparr>)
           [''input-t-wall'']
       else if x_hopper c < 0 \<or> x_hopper c > L_rect c then
         Invalid ''x_hopper must be between 0 and L_rect (wedge cannot be longer than the rectangular part).''
           (c\<lparr>x_hopper := max 0 (min (x_hopper c) (L_rect c))\<rparr>)
           [''input-x-hopper'', ''input-l-rect'']
       else if include_frame c \<and> H_frame c \<ge> H c then
         Invalid ''Frame height H_frame should be smaller than container height H.''
           (c\<lparr>H_frame := max 30 (of_int \<lfloor>H c / 3\<rfloor>)\<rparr>)
           [''input-h-frame'', ''input-h'']
       else
         let minMargin = 20;
             neededWidth = 2 * W_pocket c + S_pocket c + 2 * minMargin in
         if include_frame c \<and> neededWidth > W c then
           Invalid ''Forklift pockets + spacing need more width than available. Reduce pocket width/spacing or increase container width.''
             (let available = W c - 2 * minMargin;
                  newPocket = max 50 (of_int \<lfloor>(available - S_pocket c) / 2\<rfloor>)
              in c\<lparr>W_pocket := newPocket\<rparr>)
             [''input-w-pocket'', ''input-s-pocket'', ''input-w'']
         else
           let maxRByW = W c / 2 - lid_edge_length c;
               maxRByL = L_rect c / 2 - lid_edge_length c;
               maxR = max 20 (min maxRByW maxRByL) in
           if include_lid c \<and> r_hole c > maxR then
             Invalid ''Lid hole radius too large; ring edge would become negative.''
               (c\<lparr>r_hole := maxR\<rparr>)
               [''input-r-hole'', ''input-lid-edge'']
           else Valid)"


text \<open>
  The six invariants as the specification words them, in its priority order, and the
  diagnostic (message, remedied candidate, offending fields) that belongs to each. These
  are the reference against which \<open>validateCandidate\<close> is compared.
\<close>

datatype check = Positivity | WallThickness | HopperBound | FrameHeight | PocketWidth | LidHole

definition check_order :: "check list" where
  "check_order = [Positivity, WallThickness, HopperBound, FrameHeight, PocketWidth, LidHole]"

fun rank :: "check \<Rightarrow> nat" where
  "rank Positivity = 1"
| "rank WallThickness = 2"
| "rank HopperBound = 3"
| "rank FrameHeight = 4"
| "rank PocketWidth = 5"
| "rank LidHole = 6"

fun violated :: "check \<Rightarrow> config \<Rightarrow> bool" where
  "violated Positivity c = (\<not> (L_rect c > 0 \<and> H c > 0 \<and> W c > 0 \<and> t_wall c > 0))"
| "violated WallThickness c = (\<not> (2 * t_wall c < min (L_rect c) (W c)))"
| "violated HopperBound c = (\<not> (0 \<le> x_hopper c \<and> x_hopper c \<le> L_rect c))"
| "violated FrameHeight c = (include_frame c \<and> \<not> (H_frame c < H c))"
| "violated PocketWidth c =
     (include_frame c \<and> \<not> (2 * W_pocket c + S_pocket c + 2 * 20 \<le> W c))"
| "violated LidHole c =
     (include_lid c \<and>
      \<not> (r_hole c \<le> max 20 (min (W c / 2 - lid_edge_length c) (L_rect c / 2 - lid_edge_length c))))"

fun diagnostic :: "check \<Rightarrow> config \<Rightarrow> validation" where
  "diagnostic Positivity c =
     Invalid ''All main dimensions (L_rect, H, W, t_wall) must be > 0.''
       (c\<lparr>L_rect := max (L_rect c) 100, H := max (H c) 100,
          W := max (W c) 100, t_wall := max (t_wall c) 2\<rparr>)
       [''input-l-rect'', ''input-h'', ''input-w'', ''input-t-wall'']"
| "diagnostic WallThickness c =
     Invalid (''Wall thickness too large relative to width/length '' @ en_dash @
               '' inner cavity would collapse.'')
       (c\<lparr>t_wall := max 2 (of_int \<lfloor>min (W c) (L_rect c) / 4\<rfloor>)\<rparr>)
       [''input-t-wall'']"
| "diagnostic HopperBound c =
     Invalid ''x_hopper must be between 0 and L_rect (wedge cannot be longer than the rectangular part).''
       (c\<lparr>x_hopper := max 0 (min (x_hopper c) (L_rect c))\<rparr>)
       [''input-x-hopper'', ''input-l-rect'']"
| "diagnostic FrameHeight c =
     Invalid ''Frame height H_frame should be smaller than container height H.''
       (c\<lparr>H_frame := max 30 (of_int \<lfloor>H c / 3\<rfloor>)\<rparr>)
       [''input-h-frame'', ''input-h'']"
| "diagnostic PocketWidth c =
     Invalid ''Forklift pockets + spacing need more width than available. Reduce pocket width/spacing or increase container width.''
       (c\<lparr>W_pocket := max 50 (of_int \<lfloor>(W c - 2 * 20 - S_pocket c) / 2\<rfloor>)\<rparr>)
       [''input-w-pocket'', ''input-s-pocket'', ''input-w'']"
| "diagnostic LidHole c =
     Invalid ''Lid hole radius too large; ring edge would become negative.''
       (c\<lparr>r_hole := max 20 (min (W c / 2 - lid_edge_length c) (L_rect c / 2 - lid_edge_length c))\<rparr>)
       [''input-r-hole'', ''input-lid-edge'']"

definition first_violated :: "config \<Rightarrow> check option" where
  "first_violated c = find (\<lambda>k. violated k c) check_order"

text \<open>
  Each remedy clamps to a fixed floor (2 mm wall, 30 mm frame, 50 mm pocket). The floor
  itself satisfies the remedied invariant only when the container is large enough;
  \<open>remedy_fits\<close> says when.
\<close>

fun remedy_fits :: "check \<Rightarrow> config \<Rightarrow> bool" where
  "remedy_fits WallThickness c = (4 < min (W c) (L_rect c))"
| "remedy_fits FrameHeight c = (30 < H c)"
| "remedy_fits PocketWidth c = (S_pocket c + 140 \<le> W c)"
| "remedy_fits _ c = True"

subsection \<open>Engine state, history and the commit protocol\<close>

text \<open>
  The module-level variables \<^verbatim>\<open>state\<close>, \<^verbatim>\<open>lastValidState\<close>, \<^verbatim>\<open>undoStack\<close>,
  \<^verbatim>\<open>redoStack\<close> and \<^verbatim>\<open>pendingFixIgnore\<close> form the engine record; every function that
  mutates them takes the engine and returns it updated. Arrays are lists with the oldest
  entry first: \<^verbatim>\<open>push\<close> appends, \<^verbatim>\<open>pop\<close> takes the last element, \<^verbatim>\<open>shift\<close> drops the
  first. Calls into the page, the renderer, the store and the log are recorded in
  \<open>trace\<close> in call order; the page's elements are taken to exist.

  \<^verbatim>\<open>pendingFixIgnore\<close> holds the two closures of the open modal. The Fix closure
  captures the candidate and its validation result, the Ignore closure captures nothing,
  so the model keeps \<open>Some\<close> of the candidate as \<^verbatim>\<open>v.fix()\<close> leaves it.
\<close>

datatype effect =
  MarkInvalid "string list"
  | ShowModal string string
  | CloseModal
  | ApplyStateToInputs
  | RebuildGeometry
  | UpdateOutputs
  | SaveState config
  | UpdateUndoButtons
  | Log string
  | Alert string
  | ConsoleWarn string

record engine =
  state :: config
  lastValidState :: config
  undoStack :: "config list"
  redoStack :: "config list"
  pendingFixIgnore :: "config option"
  trace :: "effect list"

definition emit :: "effect list \<Rightarrow> engine \<Rightarrow> engine" where
  "emit fx e = e\<lparr>trace := trace e @ fx\<rparr>"

definition initial :: engine where
  "initial = \<lparr> state = deepClone DEFAULTS, lastValidState = deepClone DEFAULTS,
               undoStack = [], redoStack = [], pendingFixIgnore = None, trace = [] \<rparr>"

definition showModal :: "string \<Rightarrow> string \<Rightarrow> config \<Rightarrow> engine \<Rightarrow> engine" where
  "showModal msg fixText onFix e =
     emit [ShowModal msg fixText] (e\<lparr>pendingFixIgnore := Some onFix\<rparr>)"

definition closeModal :: "engine \<Rightarrow> engine" where
  "closeModal e = emit [CloseModal] (e\<lparr>pendingFixIgnore := None\<rparr>)"

definition saveState :: "engine \<Rightarrow> engine" where
  "saveState e = emit [SaveState (state e)] e"

definition pushUndo :: "engine \<Rightarrow> engine" where
  "pushUndo e =
     (let pushed = undoStack e @ [deepClone (state e)];
          capped = (if length pushed > 50 then tl pushed else pushed)
      in emit [UpdateUndoButtons] (e\<lparr>undoStack := capped, redoStack := []\<rparr>))"

definition undo :: "engine \<Rightarrow> engine" where
  "undo e =
     (if undoStack e = [] then e
      else
        let prev = last (undoStack e);
            e1 = e\<lparr>undoStack := butlast (undoStack e),
                   redoStack := redoStack e @ [deepClone (state e)]\<rparr>;
            e2 = e1\<lparr>state := prev\<rparr>;
            e3 = e2\<lparr>lastValidState := deepClone (state e2)\<rparr>;
            e4 = saveState (emit [ApplyStateToInputs, RebuildGeometry, UpdateOutputs] e3)
        in emit [UpdateUndoButtons, Log ''Undo.''] e4)"

definition redo :: "engine \<Rightarrow> engine" where
  "redo e =
     (if redoStack e = [] then e
      else
        let next = last (redoStack e);
            e1 = e\<lparr>redoStack := butlast (redoStack e),
                   undoStack := undoStack e @ [deepClone (state e)]\<rparr>;
            e2 = e1\<lparr>state := next\<rparr>;
            e3 = e2\<lparr>lastValidState := deepClone (state e2)\<rparr>;
            e4 = saveState (emit [ApplyStateToInputs, RebuildGeometry, UpdateOutputs] e3)
        in emit [UpdateUndoButtons, Log ''Redo.''] e4)"

text \<open>The two closures \<^verbatim>\<open>commitState\<close> hands to \<^verbatim>\<open>showModal\<close>.\<close>

definition onFix :: "config \<Rightarrow> engine \<Rightarrow> engine" where
  "onFix candidate e =
     (let e1 = e\<lparr>state := candidate\<rparr>;
          e2 = e1\<lparr>lastValidState := deepClone candidate\<rparr>;
          e3 = pushUndo (emit [MarkInvalid []] e2);
          e4 = saveState (emit [ApplyStateToInputs, RebuildGeometry, UpdateOutputs] e3)
      in emit [Log ''Auto-fix applied.''] e4)"

definition onIgnore :: "engine \<Rightarrow> engine" where
  "onIgnore e =
     (let e1 = e\<lparr>state := deepClone (lastValidState e)\<rparr>
      in emit [ApplyStateToInputs, MarkInvalid [],
               Log ''Invalid parameters ignored; geometry unchanged.''] e1)"

definition commitState :: "config \<Rightarrow> string \<Rightarrow> engine \<Rightarrow> engine" where
  "commitState newState msg e =
     (let candidate = deepClone newState;
          v = validateCandidate candidate
      in if \<not> ok v then
           showModal (message v)
             ''Fix will auto-correct values. Ignore keeps the last valid geometry.''
             (fixed v) (emit [MarkInvalid (validation.fields v)] e)
         else
           let e1 = pushUndo (emit [MarkInvalid []] e);
               e2 = e1\<lparr>state := candidate\<rparr>;
               e3 = e2\<lparr>lastValidState := deepClone candidate\<rparr>;
               e4 = saveState (emit [ApplyStateToInputs, RebuildGeometry, UpdateOutputs] e3)
           in emit [Log (if msg = [] then ''Updated parameters.'' else msg)] e4)"

text \<open>The click handlers of the modal's two buttons.\<close>

definition clickFix :: "engine \<Rightarrow> engine" where
  "clickFix e =
     closeModal (case pendingFixIgnore e of None \<Rightarrow> e | Some candidate \<Rightarrow> onFix candidate e)"

definition clickIgnore :: "engine \<Rightarrow> engine" where
  "clickIgnore e =
     closeModal (case pendingFixIgnore e of None \<Rightarrow> e | Some candidate \<Rightarrow> onIgnore e)"

text \<open>
  \<^verbatim>\<open>JSON.parse\<close> and \<^verbatim>\<open>Object.assign\<close> belong to the platform. They enter as one
  parameter: \<open>parse text\<close> is \<open>None\<close> when \<^verbatim>\<open>JSON.parse(text)\<close> throws, and otherwise
  \<open>Some m\<close>, where \<open>m target\<close> is \<^verbatim>\<open>Object.assign(target, JSON.parse(text))\<close>.
  \<^verbatim>\<open>prompt\<close> and \<^verbatim>\<open>localStorage.getItem\<close> return a string or \<^verbatim>\<open>null\<close> (\<open>None\<close>).
\<close>

type_synonym json_merge = "string \<Rightarrow> (config \<Rightarrow> config) option"

definition loadState :: "json_merge \<Rightarrow> string option \<Rightarrow> engine \<Rightarrow> engine" where
  "loadState parse raw e =
     (let useDefaults = (\<lambda>e. emit [Log ''Using default config.'']
            (e\<lparr>state := deepClone DEFAULTS, lastValidState := deepClone DEFAULTS\<rparr>))
      in case raw of
           None \<Rightarrow> useDefaults e
         | Some r \<Rightarrow>
             if r = [] then useDefaults e
             else (case parse r of
                     None \<Rightarrow> useDefaults (emit [ConsoleWarn ''Failed to load state''] e)
                   | Some merge \<Rightarrow>
                       let e1 = e\<lparr>state := merge (deepClone DEFAULTS)\<rparr>;
                           e2 = e1\<lparr>lastValidState := deepClone (state e1)\<rparr>
                       in emit [Log ''Loaded previous config.''] e2))"

definition importConfig :: "json_merge \<Rightarrow> string option \<Rightarrow> engine \<Rightarrow> engine" where
  "importConfig parse text e =
     (case text of
        None \<Rightarrow> e
      | Some t \<Rightarrow>
          if t = [] then e
          else (case parse t of
                  None \<Rightarrow> emit [Alert ''Invalid JSON.''] e
                | Some merge \<Rightarrow>
                    commitState (merge (deepClone DEFAULTS)) ''Imported configuration.'' e))"

definition resetDefaults :: "bool \<Rightarrow> engine \<Rightarrow> engine" where
  "resetDefaults confirmed e =
     (if \<not> confirmed then e
      else
        let e1 = e\<lparr>state := deepClone DEFAULTS, lastValidState := deepClone DEFAULTS,
                   undoStack := [], redoStack := []\<rparr>;
            e2 = saveState (emit [ApplyStateToInputs, RebuildGeometry, UpdateOutputs] e1)
        in emit [UpdateUndoButtons, Log ''Reset to defaults.''] e2)"

text \<open>The user's actions, and the engine run over a sequence of them.\<close>

datatype event =
  Commit config string
  | ClickFix
  | ClickIgnore
  | Undo
  | Redo
  | ResetDefaults bool
  | ImportConfig "string option"

fun step :: "json_merge \<Rightarrow> event \<Rightarrow> engine \<Rightarrow> engine" where
  "step parse (Commit newState msg) e = commitState newState msg e"
| "step parse ClickFix e = clickFix e"
| "step parse ClickIgnore e = clickIgnore e"
| "step parse Undo e = undo e"
| "step parse Redo e = redo e"
| "step parse (ResetDefaults confirmed) e = resetDefaults confirmed e"
| "step parse (ImportConfig text) e = importConfig parse text e"

definition run :: "json_merge \<Rightarrow> event list \<Rightarrow> engine \<Rightarrow> engine" where
  "run parse evs e = fold (step parse) evs e"

definition startup :: "json_merge \<Rightarrow> string option \<Rightarrow> engine" where
  "startup parse raw = loadState parse raw initial"

subsection \<open>Volumes, masses and centres of gravity\<close>

text \<open>
  \<^verbatim>\<open>computeVolumesAndMasses\<close> reads the live configuration; the model takes it as the
  argument. The source's locals \<^verbatim>\<open>L, H, W, x, Hf, t\<close> (metres) carry the suffix \<open>_m\<close>
  here. The function returns eight values; the record also exposes the locals
  \<^verbatim>\<open>V_shell\<close> and \<^verbatim>\<open>V_lid\<close>, which the source computes on the way and does not return.
  \<^verbatim>\<open>Math.PI\<close> is \<open>pi\<close>.
\<close>

datatype vec3 = Vec3 (px: real) (py: real) (pz: real)

record mass_properties =
  V_internal :: real
  V_fill :: real
  m_shell :: real
  m_lid :: real
  m_dust :: real
  m_total :: real
  cog_empty :: "vec3 option"
  cog_filled :: "vec3 option"
  V_shell :: real
  V_lid :: real

definition weightedCentroid :: "(real \<times> vec3 option) list \<Rightarrow> vec3 option" where
  "weightedCentroid components =
     (case fold (\<lambda>(v, c) (vx, vy, vz, vt).
                   case c of
                     None \<Rightarrow> (vx, vy, vz, vt)
                   | Some p \<Rightarrow> (vx + v * px p, vy + v * py p, vz + v * pz p, vt + v))
                components (0, 0, 0, 0)
      of (vx, vy, vz, vt) \<Rightarrow>
        if vt \<le> 0 then None else Some (Vec3 (vx / vt) (vy / vt) (vz / vt)))"

definition computeVolumesAndMasses :: "config \<Rightarrow> mass_properties" where
  "computeVolumesAndMasses s =
     (let L_m = mmToM (L_rect s);
          H_m = mmToM (H s);
          W_m = mmToM (W s);
          x_m = mmToM (x_hopper s);
          Hf_m = mmToM (H_frame s);
          t_m = mmToM (t_wall s);

          L_in = max 0.001 (L_m - 2 * t_m);
          W_in = max 0.001 (W_m - 2 * t_m);
          H_in = max 0.001 (H_m - t_m);

          x_in = max 0 (x_m - t_m);
          H_tri_in = H_in;

          V_rect_in = L_in * W_in * H_in;
          V_hopper_in = 0.5 * x_in * H_tri_in * W_in;
          V_internal = V_rect_in + V_hopper_in;

          fillFrac = min 1 (max 0 (fill_percentage s / 100));
          V_fill = V_internal * fillFrac;

          V_rect_out = L_m * W_m * H_m;
          V_hopper_out = (if x_m > 0 then 0.5 * x_m * H_m * W_m else 0);
          V_frame_out = (if include_frame s then L_m * W_m * Hf_m else 0);

          Wp = mmToM (W_pocket s);
          Hp = mmToM (H_pocket s);
          Sp = mmToM (S_pocket s);
          minMargin = mmToM 20;
          V_pockets =
            (if include_frame s \<and> 2 * Wp + Sp \<le> (W_m - 2 * minMargin) + 1 / 1000000
             then 2 * (L_m * Wp * Hp) else 0);

          V_outer = V_rect_out + V_hopper_out + V_frame_out;
          V_shell = max 0 (V_outer - V_internal - V_pockets);

          rhoShell = rho_shell s;
          rhoDust = rho_dust s;
          rhoLid = (if advanced_lid_material s then rho_lid s else rhoShell);

          V_lid =
            (if include_lid s then
               let tLid = mmToM (t_lid s);
                   areaLid = L_m * W_m;
                   rHole = mmToM (r_hole s);
                   areaHole = pi * rHole * rHole
               in max 0 ((areaLid - areaHole) * tLid)
             else 0);

          m_shell = V_shell * rhoShell;
          m_lid = V_lid * (if include_lid s then rhoLid else 0);
          m_dust = V_fill * rhoDust;
          m_empty = m_shell + m_lid;
          m_total = m_empty + m_dust;

          c_rect = Some (Vec3 (L_m / 2) 0 (H_m / 2));
          c_hopper = (if x_m > 0 then Some (Vec3 (- x_m / 3) 0 (H_m / 3)) else None);
          c_frame = (if include_frame s then Some (Vec3 (L_m / 2) 0 (Hf_m / 2)) else None);
          c_lid = (if include_lid s \<and> V_lid > 0
                   then Some (Vec3 (L_m / 2) 0 (H_m + mmToM (t_lid s) / 2)) else None);

          compsEmpty =
            (if V_rect_out > 0 then [(V_rect_out, c_rect)] else []) @
            (if V_hopper_out > 0 then [(V_hopper_out, c_hopper)] else []) @
            (if V_frame_out > 0 then [(V_frame_out, c_frame)] else []) @
            (if include_lid s \<and> V_lid > 0 then [(V_lid, c_lid)] else []);

          cog_empty = weightedCentroid compsEmpty;

          cog_dust =
            (if V_fill > 0 \<and> V_internal > 0 then
               let z_int = H_in / 2;
                   z_dust = z_int * fillFrac
               in Some (Vec3 (L_m / 2) 0 z_dust)
             else None);

          cog_filled =
            (case (cog_empty, cog_dust) of
               (Some ce, Some cd) \<Rightarrow>
                 if m_dust > 0 \<and> m_empty > 0 then
                   let M1 = m_empty; M2 = m_dust;
                       xC = (M1 * px ce + M2 * px cd) / (M1 + M2);
                       yC = (M1 * py ce + M2 * py cd) / (M1 + M2);
                       zC = (M1 * pz ce + M2 * pz cd) / (M1 + M2)
                   in Some (Vec3 xC yC zC)
                 else Some ce
             | (Some ce, None) \<Rightarrow> Some ce
             | (None, _) \<Rightarrow> None)
      in \<lparr> V_internal = V_internal, V_fill = V_fill, m_shell = m_shell, m_lid = m_lid,
           m_dust = m_dust, m_total = m_total, cog_empty = cog_empty, cog_filled = cog_filled,
           V_shell = V_shell, V_lid = V_lid \<rparr>)"

text \<open>
  The cavity and fill volumes as the specification words them (section 4.5, steps 2 and
  3): box and wedge volumes from the unclamped inner dimensions, each clamped to be
  non-negative.
\<close>

definition spec_cavity_volume :: "config \<Rightarrow> real" where
  "spec_cavity_volume s =
     (let L_m = mmToM (L_rect s); W_m = mmToM (W s); H_m = mmToM (H s);
          x_m = mmToM (x_hopper s); t_m = mmToM (t_wall s)
      in max 0 ((L_m - 2 * t_m) * (W_m - 2 * t_m) * (H_m - t_m)) +
         max 0 (0.5 * (x_m - t_m) * (H_m - t_m) * (W_m - 2 * t_m)))"

definition spec_fill_volume :: "config \<Rightarrow> real" where
  "spec_fill_volume s = spec_cavity_volume s * max 0 (min 1 (fill_percentage s / 100))"

subsection \<open>Earlier variants kept in the repository\<close>

text \<open>
  \<^verbatim>\<open>src/unnamed/part_000\<close> holds two other generations of the same file. Version 1.0.0
  validates with \<^verbatim>\<open>validateState\<close>, which has four of the six checks (no hopper bound, no
  frame height) and its own wording of three messages; its history is the same pair of
  stacks. Version 3.1.0 has no validator and keeps one history array with a cursor,
  capped at 20 entries (\<^verbatim>\<open>pushHistory\<close>).
\<close>

definition validateState :: "config \<Rightarrow> validation" where
  "validateState candidate =
    (let c = candidate in
     if L_rect c \<le> 0 \<or> H c \<le> 0 \<or> W c \<le> 0 \<or> t_wall c \<le> 0 then
       Invalid ''All main dimensions (L_rect, H, W, t_wall) must be > 0.''
         (c\<lparr>L_rect := max (L_rect c) 100, H := max (H c) 100,
            W := max (W c) 100, t_wall := max (t_wall c) 2\<rparr>)
         [''input-l-rect'', ''input-h'', ''input-w'', ''input-t-wall'']
     else
       let maxWall = min (W c) (L_rect c) / 4 in
       if t_wall c * 2 \<ge> W c \<or> t_wall c * 2 \<ge> L_rect c then
         Invalid ''Wall thickness is too large compared to width/length; inner cavity would collapse.''
           (c\<lparr>t_wall := max 2 (of_int \<lfloor>maxWall\<rfloor>)\<rparr>)
           [''input-t-wall'']
       else
         let minMargin = 20;
             neededWidth = 2 * W_pocket c + S_pocket c + 2 * minMargin in
         if include_frame c \<and> neededWidth > W c then
           Invalid ''Forklift pockets plus spacing require more width than available. Either reduce pocket size/spacing or increase container width.''
             (let available = W c - 2 * minMargin;
                  newPocket = max 50 (of_int \<lfloor>(available - S_pocket c) / 2\<rfloor>)
              in c\<lparr>W_pocket := newPocket\<rparr>)
             [''input-w-pocket'', ''input-s-pocket'', ''input-w'']
         else
           let maxRadiusByWidth = (W c / 2) - lid_edge_length c;
               maxRadiusByLength = (L_rect c / 2) - lid_edge_length c;
               maxAllow = max 20 (min maxRadiusByWidth maxRadiusByLength) in
           if include_lid c \<and> r_hole c > maxAllow then
             Invalid ''Lid hole radius too large relative to lid edge; ring thickness would be negative.''
               (c\<lparr>r_hole := maxAllow\<rparr>)
               [''input-r-hole'', ''input-lid-edge'']
           else Valid)"

text \<open>
  \<^verbatim>\<open>pushHistory\<close> of version 3.1.0, over the globals \<^verbatim>\<open>isUndoRedo\<close>, \<^verbatim>\<open>historyStack\<close> and
  \<^verbatim>\<open>historyIndex\<close>; the entry pushed is the serialised parameter set.
\<close>

definition pushHistory :: "bool \<Rightarrow> 'a \<Rightarrow> 'a list \<times> int \<Rightarrow> 'a list \<times> int" where
  "pushHistory isUndoRedo params h =
     (case h of (historyStack, historyIndex) \<Rightarrow>
        if isUndoRedo then (historyStack, historyIndex)
        else
          let sliced = (if historyIndex < int (length historyStack) - 1
                        then take (nat (historyIndex + 1)) historyStack else historyStack);
              pushed = sliced @ [params];
              idx = historyIndex + 1
          in if length pushed > 20 then (tl pushed, idx - 1) else (pushed, idx))"

subsection \<open>Concrete configurations and engines\<close>

definition shallow_box :: config where
  "shallow_box = DEFAULTS\<lparr>H := 4, include_frame := False\<rparr>"

definition negative_dust :: config where
  "negative_dust = DEFAULTS\<lparr>rho_dust := - 1850\<rparr>"

definition boundary_box :: config where
  "boundary_box = DEFAULTS\<lparr>x_hopper := 0, include_frame := False, fill_percentage := 100\<rparr>"

definition wall_too_thick :: config where
  "wall_too_thick = DEFAULTS\<lparr>t_wall := 700\<rparr>"

definition narrow_box :: config where
  "narrow_box = DEFAULTS\<lparr>W := 3, include_frame := False\<rparr>"

definition low_box :: config where
  "low_box = DEFAULTS\<lparr>H := 20\<rparr>"

definition slim_box :: config where
  "slim_box = DEFAULTS\<lparr>W := 100\<rparr>"

definition thick_wall_wide_pockets :: config where
  "thick_wall_wide_pockets = DEFAULTS\<lparr>t_wall := 700, W_pocket := 1000\<rparr>"

text \<open>
  A stand-in for the platform parser on the three texts used below: it agrees with
  \<^verbatim>\<open>JSON.parse\<close> and \<^verbatim>\<open>Object.assign\<close> on the empty object \<^verbatim>\<open>{}\<close> (nothing is merged) and
  rejects the empty text and \<^verbatim>\<open>not json\<close>, as \<^verbatim>\<open>JSON.parse\<close> does.
\<close>

definition parse_sample :: json_merge where
  "parse_sample text = (if text = ''{}'' then Some (\<lambda>target. target) else None)"

text \<open>An engine whose undo stack is full, its oldest entry told apart by \<open>L_rect = 1000\<close>.\<close>

definition full_history :: engine where
  "full_history = initial\<lparr>undoStack := DEFAULTS\<lparr>L_rect := 1000\<rparr> # replicate 49 DEFAULTS\<rparr>"

text \<open>An engine with one snapshot on each stack.\<close>

definition mid_history :: engine where
  "mid_history = initial\<lparr>undoStack := [DEFAULTS\<lparr>L_rect := 1000\<rparr>],
                          redoStack := [DEFAULTS\<lparr>L_rect := 2000\<rparr>]\<rparr>"

text \<open>The history invariant: the two stacks together hold at most 50 snapshots.\<close>

definition history_within :: "engine \<Rightarrow> bool" where
  "history_within e \<longleftrightarrow> length (undoStack e) + length (redoStack e) \<le> 50"

section \<open>The validator\<close>

text \<open>
  The cascade of early returns computes the diagnostic of the first violated invariant
  in the order of \<open>check_order\<close>, and \<open>Valid\<close> when there is none.
\<close>

lemma validateCandidate_first_violated:
  "validateCandidate c =
     (case first_violated c of None \<Rightarrow> Valid | Some k \<Rightarrow> diagnostic k c)"
  unfolding validateCandidate_def first_violated_def check_order_def
  by (simp add: Let_def not_less not_le) (auto simp: min_def)

lemma first_violated_Some_iff:
  "first_violated c = Some k \<longleftrightarrow> violated k c \<and> (\<forall>j. rank j < rank k \<longrightarrow> \<not> violated j c)"
proof
  assume fv: "first_violated c = Some k"
  have "violated k c"
    using fv unfolding first_violated_def check_order_def
    by (cases k) (simp_all split: if_splits)
  moreover have "\<not> violated j c" if "rank j < rank k" for j
    using fv that unfolding first_violated_def check_order_def
    by (cases k; cases j) (simp_all split: if_splits)
  ultimately show "violated k c \<and> (\<forall>j. rank j < rank k \<longrightarrow> \<not> violated j c)"
    by blast
next
  assume a: "violated k c \<and> (\<forall>j. rank j < rank k \<longrightarrow> \<not> violated j c)"
  then have e: "rank Positivity < rank k \<longrightarrow> \<not> violated Positivity c"
    "rank WallThickness < rank k \<longrightarrow> \<not> violated WallThickness c"
    "rank HopperBound < rank k \<longrightarrow> \<not> violated HopperBound c"
    "rank FrameHeight < rank k \<longrightarrow> \<not> violated FrameHeight c"
    "rank PocketWidth < rank k \<longrightarrow> \<not> violated PocketWidth c"
    by blast+
  from a have v: "violated k c" by blast
  show "first_violated c = Some k"
    using e v unfolding first_violated_def check_order_def
    by (cases k) simp_all
qed

lemma first_violated_None_iff:
  "first_violated c = None \<longleftrightarrow> (\<forall>k. \<not> violated k c)"
proof
  assume n: "first_violated c = None"
  show "\<forall>k. \<not> violated k c"
  proof
    fix k show "\<not> violated k c"
      using n unfolding first_violated_def check_order_def
      by (cases k) (simp_all split: if_splits)
  qed
next
  assume "\<forall>k. \<not> violated k c"
  then show "first_violated c = None"
    unfolding first_violated_def check_order_def by simp
qed

lemma diagnostic_not_Valid: "diagnostic k c \<noteq> Valid"
  by (cases k) simp_all

lemma diagnostic_check_unique: "diagnostic k c = diagnostic j c' \<Longrightarrow> k = j"
  by (cases k; cases j) (simp_all add: en_dash_def)

lemma validateCandidate_diagnostic_iff:
  "validateCandidate c = diagnostic k c \<longleftrightarrow> first_violated c = Some k"
proof (cases "first_violated c")
  case None
  then show ?thesis
    using diagnostic_not_Valid [of k c] by (simp add: validateCandidate_first_violated)
next
  case (Some j)
  then show ?thesis
    using diagnostic_check_unique [of j c k c] by (auto simp: validateCandidate_first_violated)
qed

lemma validateCandidate_Valid_iff:
  "validateCandidate c = Valid \<longleftrightarrow> (\<forall>k. \<not> violated k c)"
  using diagnostic_not_Valid
  by (auto simp: validateCandidate_first_violated first_violated_None_iff [symmetric]
           split: option.splits)

lemma floor_quarter: "0 < m \<Longrightarrow> 2 * real_of_int \<lfloor>m / 4\<rfloor> < m"
  using of_int_floor_le [of "m / 4"] by linarith

lemma floor_third: "0 < h \<Longrightarrow> real_of_int \<lfloor>h / 3\<rfloor> < h"
  using of_int_floor_le [of "h / 3"] by linarith

lemma floor_half: "2 * real_of_int \<lfloor>a / 2\<rfloor> \<le> a"
  using of_int_floor_le [of "a / 2"] by linarith

lemma fixed_diagnostic_earlier:
  assumes "first_violated c = Some k" and "remedy_fits k c" and "rank j \<le> rank k"
  shows "\<not> violated j (fixed (diagnostic k c))"
proof -
  have v: "violated k c" and e: "\<And>i. rank i < rank k \<Longrightarrow> \<not> violated i c"
    using assms(1) by (simp_all add: first_violated_Some_iff)
  have p: "rank Positivity < rank k \<longrightarrow> \<not> violated Positivity c"
    "rank WallThickness < rank k \<longrightarrow> \<not> violated WallThickness c"
    using e by blast+
  show ?thesis
    using v p assms(2,3) e [of j]
    apply (cases k; cases j; simp)
    subgoal by (simp add: less_max_iff_disj)
    subgoal using floor_quarter [of "min (W c) (L_rect c)"]
      by (auto simp: max_def min_def split: if_splits)
    subgoal using floor_third [of "H c"] by simp
    subgoal using floor_half [of "W c - 40 - S_pocket c"] by simp
    done
qed

lemma fixed_diagnostic_later:
  assumes "first_violated c = Some k" and "rank k < rank j" and "\<not> violated j c"
  shows "\<not> violated j (fixed (diagnostic k c))"
proof (cases k)
  case Positivity
  show ?thesis
  proof (cases j)
    case Positivity
    then show ?thesis using assms(2) \<open>k = Positivity\<close> by simp
  next
    case WallThickness
    then show ?thesis
      using assms(3) \<open>k = Positivity\<close> by (auto simp: max_def min_def split: if_splits)
  next
    case HopperBound
    then show ?thesis
      using assms(3) \<open>k = Positivity\<close> by (auto simp: le_max_iff_disj)
  next
    case FrameHeight
    then show ?thesis
      using assms(3) \<open>k = Positivity\<close> by (auto simp: less_max_iff_disj)
  next
    case PocketWidth
    then show ?thesis
      using assms(3) \<open>k = Positivity\<close> by (auto simp: le_max_iff_disj)
  next
    case LidHole
    have "min (W c / 2 - lid_edge_length c) (L_rect c / 2 - lid_edge_length c)
        \<le> min (max (W c) 100 / 2 - lid_edge_length c)
              (max (L_rect c) 100 / 2 - lid_edge_length c)"
      by (auto simp: min_def max_def)
    then show ?thesis
      using assms(3) LidHole \<open>k = Positivity\<close> by (auto simp: le_max_iff_disj)
  qed
next
  case WallThickness
  then show ?thesis using assms(2,3) by (cases j) simp_all
next
  case HopperBound
  then show ?thesis using assms(2,3) by (cases j) simp_all
next
  case FrameHeight
  then show ?thesis using assms(2,3) by (cases j) simp_all
next
  case PocketWidth
  then show ?thesis using assms(2,3) by (cases j) simp_all
next
  case LidHole
  then show ?thesis using assms(2) by (cases j) simp_all
qed

text \<open>
  Without any condition on the later invariants, a retry after a fitting remedy can
  still fail, but only at a later check.
\<close>

lemma retry_fails_only_later:
  assumes "validateCandidate c = diagnostic k c" and "remedy_fits k c"
  shows "validateCandidate (fixed (validateCandidate c)) = Valid \<or>
         (\<exists>j. rank k < rank j \<and>
            validateCandidate (fixed (validateCandidate c)) =
              diagnostic j (fixed (validateCandidate c)))"
proof -
  let ?f = "fixed (validateCandidate c)"
  have fv: "first_violated c = Some k"
    using assms(1) by (simp add: validateCandidate_diagnostic_iff)
  have f: "?f = fixed (diagnostic k c)"
    using assms(1) by simp
  have early: "\<not> violated j ?f" if "rank j \<le> rank k" for j
    using fixed_diagnostic_earlier [OF fv assms(2) that] f by simp
  show ?thesis
  proof (cases "first_violated ?f")
    case None
    then show ?thesis by (simp add: validateCandidate_first_violated)
  next
    case (Some j)
    then have "violated j ?f" by (simp add: first_violated_Some_iff)
    with early [of j] have "rank k < rank j" by (cases "rank j \<le> rank k") auto
    with Some show ?thesis by (auto simp: validateCandidate_first_violated)
  qed
qed

text \<open>
  Claim C1, as amended. When the validator rejects a candidate at check \<open>k\<close>, the
  remedy's floor fits the container (\<open>min W L > 4\<close> for the wall thickness, \<open>H > 30\<close>
  for the frame height, \<open>W \<ge> S_pocket + 140\<close> for the pocket width; nothing for
  positivity, hopper bound and lid hole), and the candidate violates no invariant that
  comes after \<open>k\<close> in the order of the checks, then applying the remedy and validating
  the remedied candidate returns \<open>Valid\<close> on the first retry. This holds for each of the
  six checks.
\<close>

theorem remedy_then_validate:
  assumes "validateCandidate c = diagnostic k c" and "remedy_fits k c"
    and "\<forall>j. rank k < rank j \<longrightarrow> \<not> violated j c"
  shows "validateCandidate (fixed (validateCandidate c)) = Valid"
proof -
  let ?f = "fixed (validateCandidate c)"
  have fv: "first_violated c = Some k"
    using assms(1) by (simp add: validateCandidate_diagnostic_iff)
  have f: "?f = fixed (diagnostic k c)"
    using assms(1) by simp
  have "\<not> violated j ?f" for j
  proof (cases "rank j \<le> rank k")
    case True
    then show ?thesis
      using fixed_diagnostic_earlier [OF fv assms(2)] f by simp
  next
    case False
    then have later: "rank k < rank j" by simp
    with assms(3) have "\<not> violated j c" by blast
    from fixed_diagnostic_later [OF fv later this] f show ?thesis by simp
  qed
  then show ?thesis by (simp add: validateCandidate_Valid_iff)
qed

text \<open>
  The theorem at the default configuration with a 700 mm wall, which violates none of
  the four later invariants: the remedy caps the wall at
  \<open>\<lfloor>min 1300 1400 / 4\<rfloor> = 325\<close> and the retry is \<open>Valid\<close>.
\<close>

theorem remedy_then_validate_witness:
  "validateCandidate wall_too_thick = diagnostic WallThickness wall_too_thick \<and>
   remedy_fits WallThickness wall_too_thick \<and>
   \<not> violated HopperBound wall_too_thick \<and>
   \<not> violated FrameHeight wall_too_thick \<and>
   \<not> violated PocketWidth wall_too_thick \<and>
   \<not> violated LidHole wall_too_thick \<and>
   fixed (validateCandidate wall_too_thick) = DEFAULTS\<lparr>t_wall := 325\<rparr> \<and>
   validateCandidate (fixed (validateCandidate wall_too_thick)) = Valid"
proof -
  have h1: "validateCandidate wall_too_thick = diagnostic WallThickness wall_too_thick"
    by (simp add: validateCandidate_def wall_too_thick_def DEFAULTS_def Let_def)
  have h2: "remedy_fits WallThickness wall_too_thick"
    by (simp add: wall_too_thick_def DEFAULTS_def)
  have h3: "fixed (validateCandidate wall_too_thick) = DEFAULTS\<lparr>t_wall := 325\<rparr>"
    by (simp add: validateCandidate_def wall_too_thick_def DEFAULTS_def Let_def)
  have l: "\<not> violated HopperBound wall_too_thick" "\<not> violated FrameHeight wall_too_thick"
    "\<not> violated PocketWidth wall_too_thick" "\<not> violated LidHole wall_too_thick"
    by (simp_all add: wall_too_thick_def DEFAULTS_def)
  have later: "\<forall>j. rank WallThickness < rank j \<longrightarrow> \<not> violated j wall_too_thick"
  proof (intro allI impI)
    fix j assume "rank WallThickness < rank j"
    then show "\<not> violated j wall_too_thick"
      using l by (cases j) simp_all
  qed
  from remedy_then_validate [OF h1 h2 later] h1 h2 h3 l show ?thesis by simp
qed

text \<open>
  Claim C1 as stated fails in two ways. A remedy's floor may not fit: a 3 mm wide box
  with the default 5 mm wall is rejected for its wall thickness, the remedy sets the
  wall to its 2 mm floor, and the retry is rejected again (\<open>2 * 2 \<ge> 3\<close>); likewise a box
  20 mm high keeps a 30 mm frame, and a box 100 mm wide keeps 50 mm pockets. And a
  remedy repairs one invariant only: the default configuration with a 700 mm wall and
  1000 mm pockets is rejected for its wall, the wall remedy fits, and the retry is
  rejected for the pockets.
\<close>

theorem remedy_then_validate_counterexample:
  "\<not> ok (validateCandidate narrow_box) \<and>
   fixed (validateCandidate narrow_box) = narrow_box\<lparr>t_wall := 2\<rparr> \<and>
   validateCandidate (fixed (validateCandidate narrow_box)) \<noteq> Valid \<and>
   \<not> ok (validateCandidate low_box) \<and>
   fixed (validateCandidate low_box) = low_box\<lparr>H_frame := 30\<rparr> \<and>
   validateCandidate (fixed (validateCandidate low_box)) \<noteq> Valid \<and>
   \<not> ok (validateCandidate slim_box) \<and>
   fixed (validateCandidate slim_box) = slim_box\<lparr>W_pocket := 50\<rparr> \<and>
   validateCandidate (fixed (validateCandidate slim_box)) \<noteq> Valid \<and>
   validateCandidate thick_wall_wide_pockets = diagnostic WallThickness thick_wall_wide_pockets \<and>
   remedy_fits WallThickness thick_wall_wide_pockets \<and>
   fixed (validateCandidate thick_wall_wide_pockets) = thick_wall_wide_pockets\<lparr>t_wall := 325\<rparr> \<and>
   validateCandidate (fixed (validateCandidate thick_wall_wide_pockets)) =
     diagnostic PocketWidth (thick_wall_wide_pockets\<lparr>t_wall := 325\<rparr>)"
proof -
  have n: "\<not> ok (validateCandidate narrow_box) \<and>
      fixed (validateCandidate narrow_box) = narrow_box\<lparr>t_wall := 2\<rparr> \<and>
      validateCandidate (fixed (validateCandidate narrow_box)) \<noteq> Valid"
    by (simp add: validateCandidate_def narrow_box_def DEFAULTS_def Let_def)
  have l: "\<not> ok (validateCandidate low_box) \<and>
      fixed (validateCandidate low_box) = low_box\<lparr>H_frame := 30\<rparr> \<and>
      validateCandidate (fixed (validateCandidate low_box)) \<noteq> Valid"
    by (simp add: validateCandidate_def low_box_def DEFAULTS_def Let_def)
  have s: "\<not> ok (validateCandidate slim_box) \<and>
      fixed (validateCandidate slim_box) = slim_box\<lparr>W_pocket := 50\<rparr> \<and>
      validateCandidate (fixed (validateCandidate slim_box)) \<noteq> Valid"
    by (simp add: validateCandidate_def slim_box_def DEFAULTS_def Let_def)
  have t: "validateCandidate thick_wall_wide_pockets =
        diagnostic WallThickness thick_wall_wide_pockets \<and>
      remedy_fits WallThickness thick_wall_wide_pockets \<and>
      fixed (validateCandidate thick_wall_wide_pockets) =
        thick_wall_wide_pockets\<lparr>t_wall := 325\<rparr> \<and>
      validateCandidate (fixed (validateCandidate thick_wall_wide_pockets)) =
        diagnostic PocketWidth (thick_wall_wide_pockets\<lparr>t_wall := 325\<rparr>)"
    by (simp add: validateCandidate_def thick_wall_wide_pockets_def DEFAULTS_def Let_def)
  from n l s t show ?thesis by blast
qed

text \<open>
  Claim C5. The checks run in the order positivity, wall thickness, hopper bound, frame
  height, pocket width, lid hole radius, and the validator stops at the first failure:
  whenever invariant \<open>k\<close> is violated and no invariant before it in this order is, the
  returned message, remedy and offending fields are those of check \<open>k\<close>, whatever later
  invariants are violated as well.
\<close>

theorem validator_reports_earliest:
  assumes "violated k c" and "\<forall>j. rank j < rank k \<longrightarrow> \<not> violated j c"
  shows "validateCandidate c = diagnostic k c"
proof -
  have "first_violated c = Some k"
    using assms by (simp add: first_violated_Some_iff)
  then show ?thesis by (simp add: validateCandidate_first_violated)
qed

text \<open>
  The theorem at a candidate that violates both the wall thickness and the pocket width
  invariants: the wall thickness diagnostic is the one returned.
\<close>

theorem validator_reports_earliest_witness:
  "violated WallThickness thick_wall_wide_pockets \<and>
   violated PocketWidth thick_wall_wide_pockets \<and>
   validateCandidate thick_wall_wide_pockets =
     diagnostic WallThickness thick_wall_wide_pockets \<and>
   message (validateCandidate thick_wall_wide_pockets) =
     ''Wall thickness too large relative to width/length '' @ en_dash @
     '' inner cavity would collapse.'' \<and>
   validation.fields (validateCandidate thick_wall_wide_pockets) = [''input-t-wall'']"
proof -
  have v2: "violated WallThickness thick_wall_wide_pockets"
    and v5: "violated PocketWidth thick_wall_wide_pockets"
    by (simp_all add: thick_wall_wide_pockets_def DEFAULTS_def)
  have e: "\<forall>j. rank j < rank WallThickness \<longrightarrow> \<not> violated j thick_wall_wide_pockets"
  proof (intro allI impI)
    fix j assume "rank j < rank WallThickness"
    then show "\<not> violated j thick_wall_wide_pockets"
      by (cases j) (simp_all add: thick_wall_wide_pockets_def DEFAULTS_def)
  qed
  from validator_reports_earliest [OF v2 e] v2 v5 show ?thesis by simp
qed

text \<open>
  The earlier \<^verbatim>\<open>validateState\<close> gives the same verdict, remedy and offending fields as
  \<open>validateCandidate\<close> on every candidate that satisfies the two invariants it does not
  check.
\<close>

lemma validateState_agrees:
  assumes "\<not> violated HopperBound c" and "\<not> violated FrameHeight c"
  shows "ok (validateState c) = ok (validateCandidate c) \<and>
         fixed (validateState c) = fixed (validateCandidate c) \<and>
         validation.fields (validateState c) = validation.fields (validateCandidate c)"
proof -
  have h: "\<not> (x_hopper c < 0 \<or> x_hopper c > L_rect c)"
    "\<not> (include_frame c \<and> H_frame c \<ge> H c)"
    using assms by auto
  show ?thesis
  proof (cases "L_rect c \<le> 0 \<or> H c \<le> 0 \<or> W c \<le> 0 \<or> t_wall c \<le> 0")
    case True
    then show ?thesis
      unfolding validateState_def validateCandidate_def Let_def by simp
  next
    case pos: False
    show ?thesis
    proof (cases "2 * t_wall c \<ge> W c \<or> 2 * t_wall c \<ge> L_rect c")
      case True
      then show ?thesis
        unfolding validateState_def validateCandidate_def Let_def
        using pos by (simp add: mult.commute)
    next
      case wall: False
      show ?thesis
      proof (cases "include_frame c \<and> 2 * W_pocket c + S_pocket c + 2 * 20 > W c")
        case True
        then show ?thesis
          unfolding validateState_def validateCandidate_def Let_def
          using pos wall h by (simp add: mult.commute)
      next
        case pocket: False
        show ?thesis
          unfolding validateState_def validateCandidate_def Let_def
          using pos wall h pocket by (auto simp: mult.commute)
      qed
    qed
  qed
qed

section \<open>History and the commit protocol\<close>

lemmas engine_defs =
  commitState_def pushUndo_def undo_def redo_def onFix_def onIgnore_def clickFix_def
  clickIgnore_def showModal_def closeModal_def saveState_def emit_def deepClone_def
  resetDefaults_def importConfig_def loadState_def Let_def

lemma capped_last:
  "last (if length (xs @ [x]) > 50 then tl (xs @ [x]) else xs @ [x]) = x"
  by (cases xs) (auto simp: last_append)

lemma capped_nonempty:
  "(if length (xs @ [x]) > 50 then tl (xs @ [x]) else xs @ [x]) \<noteq> []"
  by (cases xs) auto

lemma capped_length:
  "length xs \<le> 50 \<Longrightarrow>
   length (if length (xs @ [x]) > 50 then tl (xs @ [x]) else xs @ [x]) \<le> 50"
  by auto

lemma pushUndo_undoStack:
  "undoStack (pushUndo e) =
     (if length (undoStack e) \<ge> 50 then tl (undoStack e @ [state e]) else undoStack e @ [state e])"
  by (auto simp: engine_defs)

lemma pushUndo_last [simp]: "last (undoStack (pushUndo e)) = state e"
  using capped_last [of "undoStack e" "state e"] by (simp add: engine_defs)

lemma pushUndo_nonempty [simp]: "undoStack (pushUndo e) \<noteq> []"
  using capped_nonempty [of "undoStack e" "state e"] by (simp add: engine_defs)

lemma pushUndo_other [simp]:
  "state (pushUndo e) = state e" "lastValidState (pushUndo e) = lastValidState e"
  "redoStack (pushUndo e) = []" "pendingFixIgnore (pushUndo e) = pendingFixIgnore e"
  by (simp_all add: engine_defs)

lemma commitState_valid:
  assumes "validateCandidate cand = Valid"
  shows "state (commitState cand msg e) = cand"
    and "lastValidState (commitState cand msg e) = cand"
    and "undoStack (commitState cand msg e) = undoStack (pushUndo e)"
    and "redoStack (commitState cand msg e) = []"
    and "pendingFixIgnore (commitState cand msg e) = pendingFixIgnore e"
  using assms by (simp_all add: engine_defs)

lemma commitState_invalid:
  assumes "validateCandidate cand \<noteq> Valid"
  shows "state (commitState cand msg e) = state e"
    and "lastValidState (commitState cand msg e) = lastValidState e"
    and "undoStack (commitState cand msg e) = undoStack e"
    and "redoStack (commitState cand msg e) = redoStack e"
    and "pendingFixIgnore (commitState cand msg e) = Some (fixed (validateCandidate cand))"
    and "trace (commitState cand msg e) =
           trace e @ [MarkInvalid (validation.fields (validateCandidate cand)),
                      ShowModal (message (validateCandidate cand))
                        ''Fix will auto-correct values. Ignore keeps the last valid geometry.'']"
  using assms by (cases "validateCandidate cand"; simp add: engine_defs)+

lemma undo_nonempty:
  assumes "undoStack e \<noteq> []"
  shows "state (undo e) = last (undoStack e)"
    and "lastValidState (undo e) = last (undoStack e)"
    and "undoStack (undo e) = butlast (undoStack e)"
    and "redoStack (undo e) = redoStack e @ [state e]"
    and "pendingFixIgnore (undo e) = pendingFixIgnore e"
  using assms by (simp_all add: engine_defs)

lemma redo_nonempty:
  assumes "redoStack e \<noteq> []"
  shows "state (redo e) = last (redoStack e)"
    and "lastValidState (redo e) = last (redoStack e)"
    and "redoStack (redo e) = butlast (redoStack e)"
    and "undoStack (redo e) = undoStack e @ [state e]"
    and "pendingFixIgnore (redo e) = pendingFixIgnore e"
  using assms by (simp_all add: engine_defs)

text \<open>
  Claim C3. From any engine, committing a candidate that validates and then undoing
  restores the configuration that was live before the commit, equal in every field, and
  a redo after that restores the committed candidate.
\<close>

theorem commit_undo_redo:
  assumes "validateCandidate cand = Valid"
  shows "state (undo (commitState cand msg e)) = state e \<and>
         state (redo (undo (commitState cand msg e))) = cand"
proof -
  let ?e1 = "commitState cand msg e"
  have ne: "undoStack ?e1 \<noteq> []"
    by (simp add: commitState_valid(3) [OF assms])
  have s1: "state (undo ?e1) = state e"
    by (simp add: undo_nonempty(1) [OF ne] commitState_valid(3) [OF assms])
  have r: "redoStack (undo ?e1) = [cand]"
    by (simp add: undo_nonempty(4) [OF ne] commitState_valid [OF assms])
  then have "redoStack (undo ?e1) \<noteq> []" by simp
  from redo_nonempty(1) [OF this] r have "state (redo (undo ?e1)) = cand" by simp
  with s1 show ?thesis by simp
qed

text \<open>
  The theorem at the initial engine and the default configuration lengthened to 1500 mm.
\<close>

theorem commit_undo_redo_witness:
  "validateCandidate (DEFAULTS\<lparr>L_rect := 1500\<rparr>) = Valid \<and>
   state (undo (commitState (DEFAULTS\<lparr>L_rect := 1500\<rparr>) ''Changed L_rect.'' initial)) = DEFAULTS \<and>
   state (redo (undo (commitState (DEFAULTS\<lparr>L_rect := 1500\<rparr>) ''Changed L_rect.'' initial)))
     = DEFAULTS\<lparr>L_rect := 1500\<rparr>"
proof -
  have v: "validateCandidate (DEFAULTS\<lparr>L_rect := 1500\<rparr>) = Valid"
    by (simp add: validateCandidate_def DEFAULTS_def Let_def)
  have i: "state initial = DEFAULTS" by (simp add: initial_def deepClone_def)
  from commit_undo_redo [OF v, of "''Changed L_rect.''" initial] v i show ?thesis by simp
qed

lemma onFix_fields:
  "state (onFix cand e) = cand" "lastValidState (onFix cand e) = cand"
  "undoStack (onFix cand e) =
     (if length (undoStack e) \<ge> 50 then tl (undoStack e @ [cand]) else undoStack e @ [cand])"
  "redoStack (onFix cand e) = []"
  by (auto simp: engine_defs)

lemma clickFix_pending:
  assumes "pendingFixIgnore e = Some cand"
  shows "state (clickFix e) = cand" "lastValidState (clickFix e) = cand"
    "undoStack (clickFix e) =
       (if length (undoStack e) \<ge> 50 then tl (undoStack e @ [cand]) else undoStack e @ [cand])"
    "redoStack (clickFix e) = []" "pendingFixIgnore (clickFix e) = None"
  using assms by (auto simp: engine_defs)

lemma clickFix_none:
  assumes "pendingFixIgnore e = None"
  shows "state (clickFix e) = state e" "lastValidState (clickFix e) = lastValidState e"
    "undoStack (clickFix e) = undoStack e" "redoStack (clickFix e) = redoStack e"
    "pendingFixIgnore (clickFix e) = None"
  using assms by (auto simp: engine_defs)

lemma clickIgnore_fields:
  "state (clickIgnore e) =
     (if pendingFixIgnore e = None then state e else lastValidState e)"
  "lastValidState (clickIgnore e) = lastValidState e"
  "undoStack (clickIgnore e) = undoStack e" "redoStack (clickIgnore e) = redoStack e"
  "pendingFixIgnore (clickIgnore e) = None"
  by (auto simp: engine_defs split: option.splits)

text \<open>
  Claim C2 at a failing input. The Fix closure assigns the remedied candidate to
  \<^verbatim>\<open>state\<close> first and calls \<^verbatim>\<open>pushUndo\<close> afterwards, so the snapshot pushed is the remedied
  candidate itself. From the initial engine, committing the default configuration with a
  700 mm wall and choosing Fix leaves the remedied candidate (325 mm wall) on the undo
  stack, and an undo restores that candidate, not the default configuration that was
  live before the commit.
\<close>

theorem fix_pushes_remedied_candidate:
  "pendingFixIgnore (commitState wall_too_thick ''Changed t_wall.'' initial)
     = Some (DEFAULTS\<lparr>t_wall := 325\<rparr>) \<and>
   state (commitState wall_too_thick ''Changed t_wall.'' initial) = DEFAULTS \<and>
   undoStack (clickFix (commitState wall_too_thick ''Changed t_wall.'' initial))
     = [DEFAULTS\<lparr>t_wall := 325\<rparr>] \<and>
   state (undo (clickFix (commitState wall_too_thick ''Changed t_wall.'' initial)))
     = DEFAULTS\<lparr>t_wall := 325\<rparr> \<and>
   state (undo (clickFix (commitState wall_too_thick ''Changed t_wall.'' initial)))
     \<noteq> DEFAULTS"
proof -
  let ?e1 = "commitState wall_too_thick ''Changed t_wall.'' initial"
  have v: "validateCandidate wall_too_thick \<noteq> Valid"
    and f: "fixed (validateCandidate wall_too_thick) = DEFAULTS\<lparr>t_wall := 325\<rparr>"
    by (simp_all add: validateCandidate_def wall_too_thick_def DEFAULTS_def Let_def)
  have p: "pendingFixIgnore ?e1 = Some (DEFAULTS\<lparr>t_wall := 325\<rparr>)"
    using commitState_invalid(5) [OF v] f by simp
  have s: "state ?e1 = DEFAULTS" and u: "undoStack ?e1 = []"
    using commitState_invalid(1,3) [OF v, of "''Changed t_wall.''" initial]
    by (simp_all add: initial_def deepClone_def)
  have u2: "undoStack (clickFix ?e1) = [DEFAULTS\<lparr>t_wall := 325\<rparr>]"
    using clickFix_pending(3) [OF p] u by simp
  then have "undoStack (clickFix ?e1) \<noteq> []" by simp
  from undo_nonempty(1) [OF this] u2
  have s2: "state (undo (clickFix ?e1)) = DEFAULTS\<lparr>t_wall := 325\<rparr>" by simp
  have "DEFAULTS\<lparr>t_wall := 325\<rparr> \<noteq> DEFAULTS"
    by (simp add: DEFAULTS_def)
  with p s u2 s2 show ?thesis by simp
qed

lemma importConfig_cases:
  "importConfig parse text e = e \<or>
   (\<exists>fx. importConfig parse text e = emit fx e) \<or>
   (\<exists>c m. importConfig parse text e = commitState c m e)"
  by (auto simp: importConfig_def split: option.splits)

lemma emit_fields [simp]:
  "state (emit fx e) = state e" "lastValidState (emit fx e) = lastValidState e"
  "undoStack (emit fx e) = undoStack e" "redoStack (emit fx e) = redoStack e"
  "pendingFixIgnore (emit fx e) = pendingFixIgnore e"
  by (simp_all add: emit_def)

lemma commitState_history_within:
  "history_within e \<Longrightarrow> history_within (commitState c m e)"
  by (cases "validateCandidate c") (auto simp: history_within_def engine_defs)

lemma step_history_within:
  assumes h: "history_within e"
  shows "history_within (step parse ev e)"
proof (cases ev)
  case (Commit c m)
  then show ?thesis using h by (simp add: commitState_history_within)
next
  case ClickFix
  then show ?thesis using h
    by (auto simp: history_within_def engine_defs split: option.splits)
next
  case ClickIgnore
  then show ?thesis using h
    by (auto simp: history_within_def engine_defs split: option.splits)
next
  case Undo
  show ?thesis
  proof (cases "undoStack e = []")
    case True
    then show ?thesis using Undo h by (simp add: undo_def)
  next
    case False
    then have "1 \<le> length (undoStack e)" by (cases "undoStack e") simp_all
    then show ?thesis
      using Undo h by (simp add: history_within_def undo_nonempty [OF False])
  qed
next
  case Redo
  show ?thesis
  proof (cases "redoStack e = []")
    case True
    then show ?thesis using Redo h by (simp add: redo_def)
  next
    case False
    then have "1 \<le> length (redoStack e)" by (cases "redoStack e") simp_all
    then show ?thesis
      using Redo h by (simp add: history_within_def redo_nonempty [OF False])
  qed
next
  case (ResetDefaults b)
  then show ?thesis using h
    by (auto simp: history_within_def engine_defs)
next
  case (ImportConfig tx)
  then show ?thesis
    using h importConfig_cases [of parse tx e]
    by (auto simp: commitState_history_within) (simp add: history_within_def)
qed

lemma run_history_within:
  "history_within e \<Longrightarrow> history_within (run parse evs e)"
  unfolding run_def
  by (induction evs arbitrary: e) (simp_all add: step_history_within)

lemma startup_fields:
  "undoStack (startup parse raw) = []" "redoStack (startup parse raw) = []"
  "pendingFixIgnore (startup parse raw) = None"
  "state (startup parse raw) = lastValidState (startup parse raw)"
  by (auto simp: startup_def initial_def engine_defs split: option.splits)

text \<open>
  Claim C6. After startup and any sequence of commits, Fix and Ignore clicks, undos,
  redos, resets and imports, each history stack holds at most 50 snapshots; and pushing
  onto an undo stack that already holds 50 drops its oldest entry and keeps the length
  at 50.
\<close>

theorem history_bounded:
  "length (undoStack (run parse evs (startup parse raw))) \<le> 50 \<and>
   length (redoStack (run parse evs (startup parse raw))) \<le> 50 \<and>
   (length (undoStack e) = 50 \<longrightarrow>
      undoStack (pushUndo e) = tl (undoStack e) @ [state e] \<and>
      length (undoStack (pushUndo e)) = 50)"
proof -
  have "history_within (startup parse raw)"
    by (simp add: history_within_def startup_fields)
  then have "history_within (run parse evs (startup parse raw))"
    by (rule run_history_within)
  moreover have "undoStack (pushUndo e) = tl (undoStack e) @ [state e] \<and>
      length (undoStack (pushUndo e)) = 50" if "length (undoStack e) = 50"
    using that by (cases "undoStack e") (simp_all add: pushUndo_undoStack)
  ultimately show ?thesis by (auto simp: history_within_def)
qed

text \<open>
  The theorem at an engine with a full undo stack: the oldest entry (\<open>L_rect = 1000\<close>) is
  the one that leaves.
\<close>

theorem history_bounded_witness:
  "length (undoStack full_history) = 50 \<and>
   undoStack (pushUndo full_history) = replicate 49 DEFAULTS @ [DEFAULTS] \<and>
   length (undoStack (pushUndo full_history)) = 50 \<and>
   length (undoStack (run parse_sample [Commit DEFAULTS [], Undo, Redo] (startup parse_sample None))) \<le> 50 \<and>
   length (redoStack (run parse_sample [Commit DEFAULTS [], Undo, Redo] (startup parse_sample None))) \<le> 50"
proof -
  have l: "length (undoStack full_history) = 50"
    by (simp add: full_history_def)
  have t: "tl (undoStack full_history) @ [state full_history] = replicate 49 DEFAULTS @ [DEFAULTS]"
    by (simp add: full_history_def initial_def deepClone_def)
  from history_bounded [of parse_sample "[Commit DEFAULTS [], Undo, Redo]" None full_history] l t
  show ?thesis by simp
qed

lemma commitState_synced:
  "state e = lastValidState e \<Longrightarrow>
   state (commitState c m e) = lastValidState (commitState c m e)"
  by (cases "validateCandidate c") (auto simp: engine_defs)

lemma step_synced:
  assumes h: "state e = lastValidState e"
  shows "state (step parse ev e) = lastValidState (step parse ev e)"
proof (cases ev)
  case (Commit c m)
  then show ?thesis using h by (simp add: commitState_synced)
next
  case ClickFix
  then show ?thesis using h
    by (auto simp: engine_defs split: option.splits)
next
  case ClickIgnore
  then show ?thesis using h
    by (auto simp: engine_defs split: option.splits)
next
  case Undo
  show ?thesis
  proof (cases "undoStack e = []")
    case True
    then show ?thesis using Undo h by (simp add: undo_def)
  next
    case False
    then show ?thesis using Undo by (simp add: undo_nonempty)
  qed
next
  case Redo
  show ?thesis
  proof (cases "redoStack e = []")
    case True
    then show ?thesis using Redo h by (simp add: redo_def)
  next
    case False
    then show ?thesis using Redo by (simp add: redo_nonempty)
  qed
next
  case (ResetDefaults b)
  then show ?thesis using h
    by (auto simp: engine_defs)
next
  case (ImportConfig tx)
  then show ?thesis
    using h importConfig_cases [of parse tx e]
    by (auto simp: commitState_synced)
qed

lemma run_synced:
  "state e = lastValidState e \<Longrightarrow>
   state (run parse evs e) = lastValidState (run parse evs e)"
  unfolding run_def
  by (induction evs arbitrary: e) (simp_all add: step_synced)

text \<open>
  Claim C10. After startup and any sequence of top-level operations the live
  configuration equals the last-valid configuration in every field; an undo or a redo
  that finds a snapshot installs it as the live and as the last-valid configuration.
\<close>

theorem live_equals_last_valid:
  "state (run parse evs (startup parse raw)) = lastValidState (run parse evs (startup parse raw)) \<and>
   (undoStack e \<noteq> [] \<longrightarrow>
      state (undo e) = last (undoStack e) \<and> lastValidState (undo e) = last (undoStack e)) \<and>
   (redoStack e \<noteq> [] \<longrightarrow>
      state (redo e) = last (redoStack e) \<and> lastValidState (redo e) = last (redoStack e))"
  using run_synced [OF startup_fields(4), of parse evs parse raw]
  by (simp add: undo_nonempty redo_nonempty)

text \<open>
  The theorem at an engine with one snapshot on each stack, and at a run that commits an
  invalid candidate, fixes it and undoes.
\<close>

theorem live_equals_last_valid_witness:
  "undoStack mid_history \<noteq> [] \<and> redoStack mid_history \<noteq> [] \<and>
   state (undo mid_history) = DEFAULTS\<lparr>L_rect := 1000\<rparr> \<and>
   lastValidState (undo mid_history) = DEFAULTS\<lparr>L_rect := 1000\<rparr> \<and>
   state (redo mid_history) = DEFAULTS\<lparr>L_rect := 2000\<rparr> \<and>
   lastValidState (redo mid_history) = DEFAULTS\<lparr>L_rect := 2000\<rparr> \<and>
   state (run parse_sample [Commit wall_too_thick [], ClickFix, Undo] (startup parse_sample (Some ''{}'')))
     = lastValidState (run parse_sample [Commit wall_too_thick [], ClickFix, Undo] (startup parse_sample (Some ''{}'')))"
proof -
  have u: "undoStack mid_history \<noteq> []" and r: "redoStack mid_history \<noteq> []"
    and lu: "last (undoStack mid_history) = DEFAULTS\<lparr>L_rect := 1000\<rparr>"
    and lr: "last (redoStack mid_history) = DEFAULTS\<lparr>L_rect := 2000\<rparr>"
    by (simp_all add: mid_history_def)
  from live_equals_last_valid [of parse_sample "[Commit wall_too_thick [], ClickFix, Undo]"
      "Some ''{}''" mid_history] u r lu lr
  show ?thesis by simp
qed

lemma step_keeps_pending:
  assumes "pendingFixIgnore e \<noteq> None" and "ev \<noteq> ClickFix" and "ev \<noteq> ClickIgnore"
  shows "pendingFixIgnore (step parse ev e) \<noteq> None"
proof (cases ev)
  case (Commit c m)
  then show ?thesis using assms(1)
    by (cases "validateCandidate c") (auto simp: engine_defs)
next
  case Undo
  then show ?thesis using assms(1) by (auto simp: engine_defs)
next
  case Redo
  then show ?thesis using assms(1) by (auto simp: engine_defs)
next
  case (ResetDefaults b)
  then show ?thesis using assms(1) by (auto simp: engine_defs)
next
  case (ImportConfig tx)
  have "pendingFixIgnore (commitState c m e) \<noteq> None" for c m
    using assms(1) by (cases "validateCandidate c") (auto simp: engine_defs)
  then show ?thesis
    using ImportConfig assms(1) importConfig_cases [of parse tx e] by auto
qed (use assms in auto)

text \<open>
  Claim C4. A commit whose candidate fails validation changes neither the live
  configuration, nor the last-valid one, nor either history stack; it only records the
  pending decision. No event other than a click on Fix or on Ignore resolves that
  decision. Ignore then sets the live configuration to the last-valid one, leaves both
  stacks as they were, and calls neither the geometry rebuild, nor the recomputation of
  the outputs, nor the store.
\<close>

theorem invalid_commit_defers:
  assumes "validateCandidate cand \<noteq> Valid"
  shows "state (commitState cand msg e) = state e \<and>
         lastValidState (commitState cand msg e) = lastValidState e \<and>
         undoStack (commitState cand msg e) = undoStack e \<and>
         redoStack (commitState cand msg e) = redoStack e \<and>
         pendingFixIgnore (commitState cand msg e) = Some (fixed (validateCandidate cand)) \<and>
         (\<forall>ev. ev \<noteq> ClickFix \<and> ev \<noteq> ClickIgnore \<longrightarrow>
            pendingFixIgnore (step parse ev (commitState cand msg e)) \<noteq> None) \<and>
         state (clickIgnore (commitState cand msg e)) = lastValidState e \<and>
         lastValidState (clickIgnore (commitState cand msg e)) = lastValidState e \<and>
         undoStack (clickIgnore (commitState cand msg e)) = undoStack e \<and>
         redoStack (clickIgnore (commitState cand msg e)) = redoStack e \<and>
         pendingFixIgnore (clickIgnore (commitState cand msg e)) = None \<and>
         trace (clickIgnore (commitState cand msg e)) =
           trace (commitState cand msg e) @
             [ApplyStateToInputs, MarkInvalid [],
              Log ''Invalid parameters ignored; geometry unchanged.'', CloseModal]"
proof -
  let ?e1 = "commitState cand msg e"
  note c = commitState_invalid [OF assms, of msg e]
  have p: "pendingFixIgnore ?e1 \<noteq> None" using c(5) by simp
  have other: "\<forall>ev. ev \<noteq> ClickFix \<and> ev \<noteq> ClickIgnore \<longrightarrow>
      pendingFixIgnore (step parse ev ?e1) \<noteq> None"
    using step_keeps_pending [OF p] by blast
  have t: "trace (clickIgnore ?e1) = trace ?e1 @
      [ApplyStateToInputs, MarkInvalid [],
       Log ''Invalid parameters ignored; geometry unchanged.'', CloseModal]"
    using c(5) by (simp add: clickIgnore_def onIgnore_def closeModal_def emit_def Let_def)
  show ?thesis
    using c(1-5) other t p by (simp add: clickIgnore_fields)
qed

text \<open>
  The theorem at an engine with one snapshot on each stack and a candidate with a 700 mm
  wall.
\<close>

theorem invalid_commit_defers_witness:
  "validateCandidate wall_too_thick \<noteq> Valid \<and>
   state (commitState wall_too_thick ''Changed t_wall.'' mid_history) = DEFAULTS \<and>
   lastValidState (commitState wall_too_thick ''Changed t_wall.'' mid_history) = DEFAULTS \<and>
   undoStack (commitState wall_too_thick ''Changed t_wall.'' mid_history) = [DEFAULTS\<lparr>L_rect := 1000\<rparr>] \<and>
   redoStack (commitState wall_too_thick ''Changed t_wall.'' mid_history) = [DEFAULTS\<lparr>L_rect := 2000\<rparr>] \<and>
   pendingFixIgnore (step parse_sample Undo (commitState wall_too_thick ''Changed t_wall.'' mid_history)) \<noteq> None \<and>
   state (clickIgnore (commitState wall_too_thick ''Changed t_wall.'' mid_history)) = DEFAULTS \<and>
   undoStack (clickIgnore (commitState wall_too_thick ''Changed t_wall.'' mid_history)) = [DEFAULTS\<lparr>L_rect := 1000\<rparr>] \<and>
   redoStack (clickIgnore (commitState wall_too_thick ''Changed t_wall.'' mid_history)) = [DEFAULTS\<lparr>L_rect := 2000\<rparr>]"
proof -
  have v: "validateCandidate wall_too_thick \<noteq> Valid"
    by (simp add: validateCandidate_def wall_too_thick_def DEFAULTS_def Let_def)
  have m: "state mid_history = DEFAULTS" "lastValidState mid_history = DEFAULTS"
    "undoStack mid_history = [DEFAULTS\<lparr>L_rect := 1000\<rparr>]"
    "redoStack mid_history = [DEFAULTS\<lparr>L_rect := 2000\<rparr>]"
    by (simp_all add: mid_history_def initial_def deepClone_def)
  note d = invalid_commit_defers [OF v, of "''Changed t_wall.''" mid_history parse_sample]
  from d have u: "pendingFixIgnore
      (step parse_sample Undo (commitState wall_too_thick ''Changed t_wall.'' mid_history)) \<noteq> None"
    by blast
  from d u v m show ?thesis by simp
qed

text \<open>
  Claim C9, as amended. When the pasted text does not parse, the import changes neither
  the live configuration, nor the last-valid one, nor either history stack, nor a
  pending decision; a text that is not empty is reported with the alert
  \<^verbatim>\<open>Invalid JSON.\<close>, the empty text is dropped with no report at all.
\<close>

theorem import_unparseable:
  assumes "parse t = None"
  shows "state (importConfig parse (Some t) e) = state e \<and>
         lastValidState (importConfig parse (Some t) e) = lastValidState e \<and>
         undoStack (importConfig parse (Some t) e) = undoStack e \<and>
         redoStack (importConfig parse (Some t) e) = redoStack e \<and>
         pendingFixIgnore (importConfig parse (Some t) e) = pendingFixIgnore e \<and>
         trace (importConfig parse (Some t) e) =
           trace e @ (if t = [] then [] else [Alert ''Invalid JSON.''])"
  using assms by (simp add: importConfig_def emit_def)

text \<open>
  The theorem at the text \<^verbatim>\<open>not json\<close>: \<open>L_rect\<close> stays 1400, the stacks stay, the alert is
  raised.
\<close>

theorem import_unparseable_witness:
  "parse_sample ''not json'' = None \<and>
   L_rect (state (importConfig parse_sample (Some ''not json'') mid_history)) = 1400 \<and>
   undoStack (importConfig parse_sample (Some ''not json'') mid_history) = undoStack mid_history \<and>
   redoStack (importConfig parse_sample (Some ''not json'') mid_history) = redoStack mid_history \<and>
   trace (importConfig parse_sample (Some ''not json'') mid_history) = [Alert ''Invalid JSON.'']"
proof -
  have h: "parse_sample ''not json'' = None" by (simp add: parse_sample_def)
  have m: "L_rect (state mid_history) = 1400" "trace mid_history = []"
    by (simp_all add: mid_history_def initial_def deepClone_def DEFAULTS_def)
  from import_unparseable [of parse_sample "''not json''" mid_history] h m
  show ?thesis by simp
qed

text \<open>
  Claim C9 as stated fails at the empty text, which does not parse: the import returns
  at its first guard and the trace stays empty, so no failure is reported.
\<close>

theorem import_empty_text_counterexample:
  "parse_sample [] = None \<and>
   importConfig parse_sample (Some []) initial = initial \<and>
   trace (importConfig parse_sample (Some []) initial) = []"
  by (simp add: parse_sample_def importConfig_def initial_def)

text \<open>The single history array of version 3.1.0 never grows beyond 20 entries.\<close>

lemma pushHistory_bounded:
  assumes "length historyStack \<le> 20"
  shows "length (fst (pushHistory isUndoRedo params (historyStack, historyIndex))) \<le> 20"
  using assms unfolding pushHistory_def
  by (auto simp: Let_def)

section \<open>Mass properties\<close>

lemma V_internal_eq:
  "V_internal (computeVolumesAndMasses s) =
     max 0.001 (mmToM (L_rect s) - 2 * mmToM (t_wall s)) *
     max 0.001 (mmToM (W s) - 2 * mmToM (t_wall s)) *
     max 0.001 (mmToM (H s) - mmToM (t_wall s)) +
     0.5 * max 0 (mmToM (x_hopper s) - mmToM (t_wall s)) *
     max 0.001 (mmToM (H s) - mmToM (t_wall s)) *
     max 0.001 (mmToM (W s) - 2 * mmToM (t_wall s))"
  unfolding computeVolumesAndMasses_def Let_def
  by (simp only: mass_properties.select_convs)

lemma V_fill_eq:
  "V_fill (computeVolumesAndMasses s) =
     V_internal (computeVolumesAndMasses s) * min 1 (max 0 (fill_percentage s / 100))"
  unfolding computeVolumesAndMasses_def Let_def
  by (simp only: mass_properties.select_convs)

lemma V_shell_nonneg: "0 \<le> V_shell (computeVolumesAndMasses s)"
  unfolding computeVolumesAndMasses_def Let_def
  by (simp only: mass_properties.select_convs max.cobounded1)

lemma V_lid_eq:
  "V_lid (computeVolumesAndMasses s) =
     (if include_lid s then
        max 0 ((mmToM (L_rect s) * mmToM (W s) - pi * mmToM (r_hole s) * mmToM (r_hole s)) *
               mmToM (t_lid s))
      else 0)"
  unfolding computeVolumesAndMasses_def Let_def
  by (simp only: mass_properties.select_convs)

lemma V_lid_nonneg: "0 \<le> V_lid (computeVolumesAndMasses s)"
  unfolding V_lid_eq by simp

lemma V_lid_excluded: "\<not> include_lid s \<Longrightarrow> V_lid (computeVolumesAndMasses s) = 0"
  unfolding V_lid_eq by simp

lemma m_shell_eq:
  "m_shell (computeVolumesAndMasses s) = V_shell (computeVolumesAndMasses s) * rho_shell s"
  unfolding computeVolumesAndMasses_def Let_def
  by (simp only: mass_properties.select_convs)

lemma m_lid_eq:
  "m_lid (computeVolumesAndMasses s) =
     V_lid (computeVolumesAndMasses s) *
       (if include_lid s then (if advanced_lid_material s then rho_lid s else rho_shell s) else 0)"
  unfolding computeVolumesAndMasses_def Let_def
  by (simp only: mass_properties.select_convs)

lemma m_dust_eq:
  "m_dust (computeVolumesAndMasses s) = V_fill (computeVolumesAndMasses s) * rho_dust s"
  unfolding computeVolumesAndMasses_def Let_def
  by (simp only: mass_properties.select_convs)

lemma m_total_eq:
  "m_total (computeVolumesAndMasses s) =
     m_shell (computeVolumesAndMasses s) + m_lid (computeVolumesAndMasses s) +
     m_dust (computeVolumesAndMasses s)"
  unfolding computeVolumesAndMasses_def Let_def
  by (simp only: mass_properties.select_convs)

lemma V_internal_pos: "0 < V_internal (computeVolumesAndMasses s)"
proof -
  have a: "(0::real) < max 0.001 u" for u by (simp add: less_max_iff_disj)
  have b: "(0::real) \<le> max 0 u" for u by simp
  show ?thesis
    unfolding V_internal_eq
    by (intro add_pos_nonneg mult_pos_pos mult_nonneg_nonneg a b less_imp_le [OF a]) simp_all
qed

lemma V_fill_nonneg: "0 \<le> V_fill (computeVolumesAndMasses s)"
  unfolding V_fill_eq
  by (intro mult_nonneg_nonneg less_imp_le [OF V_internal_pos]) simp


text \<open>
  Claim C8, as amended. For every configuration the validator accepts whose densities in
  use are not negative (\<open>rho_shell\<close>, \<open>rho_dust\<close>, and \<open>rho_lid\<close> when the lid is included
  with its own material), the cavity, fill, shell and lid volumes and the shell, lid,
  dust and total masses are all non-negative. The boundary cases \<open>x_hopper = 0\<close>, no
  frame, no lid, and a fill of 0 or 100 percent are among these configurations.
\<close>

theorem mass_outputs_nonneg:
  assumes "validateCandidate s = Valid"
    and "0 \<le> rho_shell s" and "0 \<le> rho_dust s"
    and "include_lid s \<and> advanced_lid_material s \<longrightarrow> 0 \<le> rho_lid s"
  shows "0 \<le> V_internal (computeVolumesAndMasses s) \<and>
         0 \<le> V_fill (computeVolumesAndMasses s) \<and>
         0 \<le> V_shell (computeVolumesAndMasses s) \<and>
         0 \<le> V_lid (computeVolumesAndMasses s) \<and>
         0 \<le> m_shell (computeVolumesAndMasses s) \<and>
         0 \<le> m_lid (computeVolumesAndMasses s) \<and>
         0 \<le> m_dust (computeVolumesAndMasses s) \<and>
         0 \<le> m_total (computeVolumesAndMasses s)"
proof -
  let ?r = "computeVolumesAndMasses s"
  have vi: "0 \<le> V_internal ?r" using V_internal_pos [of s] by simp
  have ms: "0 \<le> m_shell ?r"
    unfolding m_shell_eq using V_shell_nonneg assms(2) by (rule mult_nonneg_nonneg)
  have ml: "0 \<le> m_lid ?r"
  proof (cases "include_lid s")
    case True
    then have "0 \<le> (if include_lid s then (if advanced_lid_material s then rho_lid s else rho_shell s) else 0)"
      using assms(2,4) by simp
    with V_lid_nonneg show ?thesis
      unfolding m_lid_eq by (rule mult_nonneg_nonneg)
  next
    case False
    then show ?thesis by (simp add: m_lid_eq)
  qed
  have md: "0 \<le> m_dust ?r"
    unfolding m_dust_eq using V_fill_nonneg assms(3) by (rule mult_nonneg_nonneg)
  have mt: "0 \<le> m_total ?r"
    unfolding m_total_eq using ms ml md by simp
  from vi V_fill_nonneg V_shell_nonneg V_lid_nonneg ms ml md mt show ?thesis by blast
qed

text \<open>
  The theorem at a boundary configuration: no hopper, no frame, no lid, filled to 100
  percent.
\<close>

theorem mass_outputs_nonneg_witness:
  "validateCandidate boundary_box = Valid \<and>
   0 \<le> rho_shell boundary_box \<and> 0 \<le> rho_dust boundary_box \<and>
   \<not> include_lid boundary_box \<and>
   0 \<le> V_internal (computeVolumesAndMasses boundary_box) \<and>
   0 \<le> V_fill (computeVolumesAndMasses boundary_box) \<and>
   0 \<le> V_shell (computeVolumesAndMasses boundary_box) \<and>
   0 \<le> V_lid (computeVolumesAndMasses boundary_box) \<and>
   0 \<le> m_shell (computeVolumesAndMasses boundary_box) \<and>
   0 \<le> m_lid (computeVolumesAndMasses boundary_box) \<and>
   0 \<le> m_dust (computeVolumesAndMasses boundary_box) \<and>
   0 \<le> m_total (computeVolumesAndMasses boundary_box)"
proof -
  have v: "validateCandidate boundary_box = Valid"
    by (simp add: validateCandidate_def boundary_box_def DEFAULTS_def Let_def)
  have d: "0 \<le> rho_shell boundary_box" "0 \<le> rho_dust boundary_box"
    "\<not> include_lid boundary_box"
    by (simp_all add: boundary_box_def DEFAULTS_def)
  from mass_outputs_nonneg [OF v d(1,2)] d v show ?thesis by simp
qed

text \<open>
  Claim C8 as stated fails: the validator checks no density, so the default
  configuration with a dust density of \<open>-1850\<close> is accepted and its dust mass is negative.
\<close>

theorem mass_outputs_nonneg_counterexample:
  "validateCandidate negative_dust = Valid \<and>
   m_dust (computeVolumesAndMasses negative_dust) =
     (1.39 * 1.29 * 0.895 + 0.5 * 0.695 * 0.895 * 1.29) * 0.8 * (- 1850) \<and>
   m_dust (computeVolumesAndMasses negative_dust) < 0"
proof -
  have v: "validateCandidate negative_dust = Valid"
    by (simp add: validateCandidate_def negative_dust_def DEFAULTS_def Let_def)
  have c: "m_dust (computeVolumesAndMasses negative_dust) =
      (1.39 * 1.29 * 0.895 + 0.5 * 0.695 * 0.895 * 1.29) * 0.8 * (- 1850)"
    unfolding m_dust_eq V_fill_eq V_internal_eq
    by (simp add: negative_dust_def DEFAULTS_def mmToM_def)
  have f: "0 < V_fill (computeVolumesAndMasses negative_dust)"
    unfolding V_fill_eq
    by (rule mult_pos_pos [OF V_internal_pos]) (simp add: negative_dust_def DEFAULTS_def)
  have "rho_dust negative_dust < 0"
    by (simp add: negative_dust_def DEFAULTS_def)
  with f have "m_dust (computeVolumesAndMasses negative_dust) < 0"
    unfolding m_dust_eq by (rule mult_pos_neg)
  with v c show ?thesis by simp
qed

lemma spec_cavity_volume_eq:
  assumes "1 \<le> L_rect s - 2 * t_wall s" and "1 \<le> W s - 2 * t_wall s"
    and "1 \<le> H s - t_wall s"
  shows "V_internal (computeVolumesAndMasses s) = spec_cavity_volume s"
proof -
  define a where "a = mmToM (L_rect s) - 2 * mmToM (t_wall s)"
  define b where "b = mmToM (W s) - 2 * mmToM (t_wall s)"
  define h where "h = mmToM (H s) - mmToM (t_wall s)"
  define x where "x = mmToM (x_hopper s) - mmToM (t_wall s)"
  have a: "0.001 \<le> a" and b: "0.001 \<le> b" and h: "0.001 \<le> h"
    using assms by (simp_all add: a_def b_def h_def mmToM_def)
  have ma: "max 0.001 a = a" and mb: "max 0.001 b = b" and mh: "max 0.001 h = h"
    using a b h by (simp_all add: max_def)
  have pa: "0 < a" and pb: "0 < b" and ph: "0 < h" using a b h by simp_all
  have box: "max 0 (a * b * h) = a * b * h"
    using pa pb ph by (simp add: max_def)
  have hb: "0 < h * b" using ph pb by simp
  have wedge: "max 0 (0.5 * x * h * b) = 0.5 * max 0 x * h * b"
  proof (cases "0 \<le> x")
    case True
    then have "0 \<le> 0.5 * x * h * b" using ph pb by simp
    with True show ?thesis by (simp add: max_def)
  next
    case False
    then have "x < 0" by simp
    then have "x * (h * b) < 0" using hb by (rule mult_neg_pos)
    then have "0.5 * x * h * b \<le> 0" by (simp add: mult.assoc)
    with False show ?thesis by (simp add: max_def)
  qed
  have "V_internal (computeVolumesAndMasses s) =
      max 0.001 a * max 0.001 b * max 0.001 h + 0.5 * max 0 x * max 0.001 h * max 0.001 b"
    unfolding V_internal_eq a_def b_def h_def x_def ..
  also have "\<dots> = max 0 (a * b * h) + max 0 (0.5 * x * h * b)"
    by (simp only: ma mb mh box wedge)
  also have "\<dots> = spec_cavity_volume s"
    unfolding spec_cavity_volume_def Let_def a_def b_def h_def x_def ..
  finally show ?thesis .
qed

lemma clamp_commute: "min 1 (max 0 (f::real)) = max 0 (min 1 f)"
  by (simp add: min_def max_def)

lemma mmToM_diff: "mmToM a - n * mmToM b = mmToM (a - n * b)"
  by (simp add: mmToM_def diff_divide_distrib)

text \<open>
  Claim C7, as amended. For every configuration the cavity volume is computed from the
  inner dimensions \<open>L - 2t\<close>, \<open>W - 2t\<close> and \<open>H - t\<close> in metres, each raised to at least
  0.001 m, and from \<open>x_hopper - t\<close> in metres raised to at least 0: the product of the
  three raised dimensions plus half the product of the raised hopper length, height and
  width. The fill volume is the cavity volume times the fill percentage over 100 clamped
  to the interval from 0 to 1. Whenever each of the three inner dimensions is at least
  1 mm, the cavity volume is the box volume plus the wedge volume of the specification,
  each clamped at 0.
\<close>

theorem cavity_and_fill_volume:
  "V_internal (computeVolumesAndMasses s) =
     max 0.001 (mmToM (L_rect s - 2 * t_wall s)) *
     max 0.001 (mmToM (W s - 2 * t_wall s)) *
     max 0.001 (mmToM (H s - t_wall s)) +
     0.5 * max 0 (mmToM (x_hopper s - t_wall s)) *
     max 0.001 (mmToM (H s - t_wall s)) *
     max 0.001 (mmToM (W s - 2 * t_wall s)) \<and>
   V_fill (computeVolumesAndMasses s) =
     V_internal (computeVolumesAndMasses s) * max 0 (min 1 (fill_percentage s / 100)) \<and>
   (1 \<le> L_rect s - 2 * t_wall s \<and> 1 \<le> W s - 2 * t_wall s \<and> 1 \<le> H s - t_wall s \<longrightarrow>
      V_internal (computeVolumesAndMasses s) = spec_cavity_volume s \<and>
      V_fill (computeVolumesAndMasses s) = spec_fill_volume s)"
proof -
  have floors: "V_internal (computeVolumesAndMasses s) =
     max 0.001 (mmToM (L_rect s - 2 * t_wall s)) *
     max 0.001 (mmToM (W s - 2 * t_wall s)) *
     max 0.001 (mmToM (H s - t_wall s)) +
     0.5 * max 0 (mmToM (x_hopper s - t_wall s)) *
     max 0.001 (mmToM (H s - t_wall s)) *
     max 0.001 (mmToM (W s - 2 * t_wall s))"
    using mmToM_diff [of "L_rect s" 2 "t_wall s"] mmToM_diff [of "W s" 2 "t_wall s"]
      mmToM_diff [of "H s" 1 "t_wall s"] mmToM_diff [of "x_hopper s" 1 "t_wall s"]
    by (simp add: V_internal_eq)
  have rest: "V_fill (computeVolumesAndMasses s) =
       V_internal (computeVolumesAndMasses s) * max 0 (min 1 (fill_percentage s / 100)) \<and>
     (1 \<le> L_rect s - 2 * t_wall s \<and> 1 \<le> W s - 2 * t_wall s \<and> 1 \<le> H s - t_wall s \<longrightarrow>
        V_internal (computeVolumesAndMasses s) = spec_cavity_volume s \<and>
        V_fill (computeVolumesAndMasses s) = spec_fill_volume s)"
    by (simp add: V_fill_eq clamp_commute spec_cavity_volume_eq spec_fill_volume_def)
  from floors rest show ?thesis by (rule conjI)
qed

text \<open>
  The theorem at the default configuration, whose inner dimensions are 1390, 1290 and
  895 mm.
\<close>

theorem cavity_and_fill_volume_witness:
  "1 \<le> L_rect DEFAULTS - 2 * t_wall DEFAULTS \<and> 1 \<le> W DEFAULTS - 2 * t_wall DEFAULTS \<and>
   1 \<le> H DEFAULTS - t_wall DEFAULTS \<and>
   V_internal (computeVolumesAndMasses DEFAULTS) = spec_cavity_volume DEFAULTS \<and>
   V_fill (computeVolumesAndMasses DEFAULTS) = spec_fill_volume DEFAULTS \<and>
   spec_cavity_volume DEFAULTS = 1.39 * 1.29 * 0.895 + 0.5 * 0.695 * 0.895 * 1.29"
proof -
  have h: "1 \<le> L_rect DEFAULTS - 2 * t_wall DEFAULTS" "1 \<le> W DEFAULTS - 2 * t_wall DEFAULTS"
    "1 \<le> H DEFAULTS - t_wall DEFAULTS"
    by (simp_all add: DEFAULTS_def)
  have v: "spec_cavity_volume DEFAULTS = 1.39 * 1.29 * 0.895 + 0.5 * 0.695 * 0.895 * 1.29"
    by (simp add: spec_cavity_volume_def DEFAULTS_def mmToM_def Let_def)
  from cavity_and_fill_volume [of DEFAULTS] h
  have e: "V_internal (computeVolumesAndMasses DEFAULTS) = spec_cavity_volume DEFAULTS \<and>
      V_fill (computeVolumesAndMasses DEFAULTS) = spec_fill_volume DEFAULTS"
    by blast
  from h e v show ?thesis by blast
qed

text \<open>
  Claim C7 as stated fails: a box 4 mm high with the default 5 mm wall (and no frame) is
  accepted by the validator, its box and wedge volumes by the stated formula clamp to 0,
  and the computed cavity volume is positive, because the inner height is raised to
  0.001 m.
\<close>

theorem cavity_volume_counterexample:
  "validateCandidate shallow_box = Valid \<and>
   spec_cavity_volume shallow_box = 0 \<and>
   V_internal (computeVolumesAndMasses shallow_box) =
     1.39 * 1.29 * 0.001 + 0.5 * 0.695 * 0.001 * 1.29 \<and>
   V_internal (computeVolumesAndMasses shallow_box) \<noteq> spec_cavity_volume shallow_box"
proof -
  have v: "validateCandidate shallow_box = Valid"
    by (simp add: validateCandidate_def shallow_box_def DEFAULTS_def Let_def)
  have z: "spec_cavity_volume shallow_box = 0"
    by (simp add: spec_cavity_volume_def shallow_box_def DEFAULTS_def mmToM_def Let_def)
  have c: "V_internal (computeVolumesAndMasses shallow_box) =
      1.39 * 1.29 * 0.001 + 0.5 * 0.695 * 0.001 * 1.29"
    unfolding V_internal_eq by (simp add: shallow_box_def DEFAULTS_def mmToM_def)
  from v z c V_internal_pos [of shallow_box] show ?thesis by simp
qed

end
